theory Spec2Isabelle
  imports Main "HOL-Library.Sublist"
begin

section \<open>JavaScript strings and values\<close>

text \<open>
  Strings are \<^typ>\<open>string\<close> (lists of \<^typ>\<open>char\<close>). The model covers the ASCII range:
  \<open>toLowerCase\<close> maps \<open>A\<close>..\<open>Z\<close> to \<open>a\<close>..\<open>z\<close> and leaves every other character alone,
  and \<open>trim\<close> strips the ASCII white space (tab, line feed, vertical tab, form feed,
  carriage return, space) from both ends.
\<close>

definition lowerChar :: "char \<Rightarrow> char" where
  "lowerChar c =
     (let n = (of_char c :: nat) in if 65 \<le> n \<and> n \<le> 90 then char_of (n + 32) else c)"

definition toLowerCase :: "string \<Rightarrow> string" where
  "toLowerCase s = map lowerChar s"

definition isWhiteSpace :: "char \<Rightarrow> bool" where
  "isWhiteSpace c = (let n = (of_char c :: nat) in (9 \<le> n \<and> n \<le> 13) \<or> n = 32)"

definition trim :: "string \<Rightarrow> string" where
  "trim s = rev (dropWhile isWhiteSpace (rev (dropWhile isWhiteSpace s)))"

text \<open>\<open>isPrefixOf t s\<close>: the string \<open>s\<close> starts with \<open>t\<close>.\<close>

fun isPrefixOf :: "string \<Rightarrow> string \<Rightarrow> bool" where
  "isPrefixOf [] s = True"
| "isPrefixOf (c # t) [] = False"
| "isPrefixOf (c # t) (d # s) = (c = d \<and> isPrefixOf t s)"

text \<open>\<open>str_includes s t\<close> is \<open>s.includes(t)\<close>: \<open>t\<close> occurs in \<open>s\<close> as a contiguous run.\<close>

fun str_includes :: "string \<Rightarrow> string \<Rightarrow> bool" where
  "str_includes [] t = (t = [])"
| "str_includes (c # s) t = (isPrefixOf t (c # s) \<or> str_includes s t)"

text \<open>
  A string in a boolean position (\<open>if (x)\<close>, \<open>x ? a : b\<close>, \<open>x || y\<close>): \<open>undefined\<close>
  (\<open>None\<close>) and the empty string are falsy, every other string is truthy.
\<close>

definition truthy :: "string option \<Rightarrow> bool" where
  "truthy x = (case x of None \<Rightarrow> False | Some s \<Rightarrow> s \<noteq> [])"

text \<open>\<open>x || ""\<close> for an optional string.\<close>

definition orEmpty :: "string option \<Rightarrow> string" where
  "orEmpty x = (case x of None \<Rightarrow> [] | Some s \<Rightarrow> s)"

text \<open>A template literal prints a non-negative integer in decimal.\<close>

fun digitChar :: "nat \<Rightarrow> char" where
  "digitChar n = char_of (48 + n)"

function numberToString :: "nat \<Rightarrow> string" where
  "numberToString n =
     (if n < 10 then [digitChar n] else numberToString (n div 10) @ [digitChar (n mod 10)])"
  by pat_completeness auto
termination
  by (relation "measure id") auto

declare numberToString.simps [simp del]

section \<open>AssetResolver: \<open>getVariantImageUrl\<close>\<close>

definition url_newYork :: string where
  "url_newYork = ''https://media.istockphoto.com/id/525232662/photo/new-york-empire-state-building-and-statue-of-liberty.jpg?s=1024x1024&w=is&k=20&c=9DG3g3gB1-c01RKG-Iinsigts2CtEGAQE2HoXLOYOhM=''"

definition url_nySkyline :: string where
  "url_nySkyline = ''https://media.istockphoto.com/id/1406960186/photo/the-skyline-of-new-york-city-united-states.jpg?s=1024x1024&w=is&k=20&c=m5cYGPJsDS6nTsxYucy6jlCj7flGliYw6Lf4Ftg0jQs=''"

definition url_sanFrancisco :: string where
  "url_sanFrancisco = ''https://media.istockphoto.com/id/1136437406/photo/san-francisco-skyline-with-oakland-bay-bridge-at-sunset-california-usa.jpg?s=1024x1024&w=is&k=20&c=_UuntG09XSAMDFr7E2AVukaN6MWV5jLtnsbSorf-csA=''"

definition url_chicago :: string where
  "url_chicago = ''https://media.istockphoto.com/id/1449046495/photo/chicago-river-and-cityscape.jpg?s=1024x1024&w=is&k=20&c=XyBkj-fVzvo0gbbt0Obf8qIhCpGofcC6bYbP2GSjk5g=''"

definition url_charleston :: string where
  "url_charleston = ''https://media.istockphoto.com/id/1924853613/photo/charleston-south-carolina-usa-historic-cityscape.jpg?s=1024x1024&w=is&k=20&c=I8bgWkG76H3S_3QYUqF556Aif78HVVuHZQ3ebyOGBqc=''"

text \<open>
  \<open>locationImageMap\<close> in declaration order, which is the order \<open>Object.entries\<close> visits
  its (non-numeric) keys in.
\<close>

definition locationImageMap :: "(string \<times> string) list" where
  "locationImageMap =
    [(''new york'', url_newYork),
     (''ny'', url_nySkyline),
     (''new york city'', url_nySkyline),
     (''california'', url_sanFrancisco),
     (''san francisco'', url_sanFrancisco),
     (''sf'', url_sanFrancisco),
     (''los angeles'', url_sanFrancisco),
     (''la'', url_sanFrancisco),
     (''delaware'', url_chicago),
     (''chicago'', url_chicago),
     (''charleston'', url_charleston),
     (''south carolina'', url_charleston),
     (''usa'', url_chicago),
     (''united states'', url_chicago),
     (''default'', url_chicago)]"

text \<open>\<open>locationImageMap.default\<close>; the key is declared, so the read is never \<open>undefined\<close>.\<close>

definition locationImageMap_default :: string where
  "locationImageMap_default = orEmpty (map_of locationImageMap ''default'')"

text \<open>The \<open>for\<close> loop over the entries: the first entry that passes the test returns.\<close>

fun scanEntries :: "string \<Rightarrow> (string \<times> string) list \<Rightarrow> string option" where
  "scanEntries searchText [] = None"
| "scanEntries searchText ((location, imageUrl) # rest) =
     (if location \<noteq> ''default'' \<and> str_includes searchText location then Some imageUrl
      else scanEntries searchText rest)"

definition searchTextOf :: "string option \<Rightarrow> string option \<Rightarrow> string" where
  "searchTextOf variantName serviceName =
     toLowerCase (orEmpty variantName @ '' '' @ orEmpty serviceName)"

definition getVariantImageUrl :: "string option \<Rightarrow> string option \<Rightarrow> string" where
  "getVariantImageUrl variantName serviceName =
     (case scanEntries (searchTextOf variantName serviceName) locationImageMap of
        Some imageUrl \<Rightarrow> imageUrl
      | None \<Rightarrow> locationImageMap_default)"

section \<open>CatalogGateway: \<open>CatalogService\<close>\<close>

text \<open>
  \<open>interface CatalogItem\<close>. A string field that is \<open>null\<close> or \<open>undefined\<close> at run time is
  \<open>None\<close>. The identifier is an integer; the other numeric fields are kept as integers
  as well, and none of them takes part in the operations below.
\<close>

record CatalogItem =
  item_id :: int
  service_name :: "string option"
  variant_name :: "string option"
  description :: "string option"
  price :: int
  market_price :: int
  currency :: "string option"
  rating :: "string option"
  customers :: int
  delivery_time :: int
  category :: "string option"
  page_url :: "string option"
  about :: "string option"
  unit_label :: "string option"

text \<open>\<open>interface CatalogResponse\<close>: \<open>error\<close> is optional.\<close>

record 'a CatalogResponse =
  catalog :: "'a list"
  error :: "string option"

text \<open>
  What \<open>response.json()\<close> can yield: a JSON value. An array holds elements of type \<open>'a\<close>,
  the type the source assigns them without a check (\<open>CatalogItem[]\<close>). An object lists
  its members in the order of the text. A number is kept as an integer: the code only
  asks whether it is zero.
\<close>

datatype 'a json =
    JNull
  | JBool bool
  | JNumber int
  | JString string
  | JArray "'a list"
  | JObject "(string \<times> 'a json) list"

text \<open>
  A thrown value: an \<open>Error\<close> with its message, or a value that is not an instance of
  \<open>Error\<close>. An awaited promise either rejects with one or resolves.
\<close>

datatype js_exn = Error string | NonError

datatype 'a outcome = Throws js_exn | Returns 'a

record 'a Response =
  ok :: bool
  status :: nat
  statusText :: string
  response_json :: "'a json outcome"

text \<open>
  The request handed to \<open>fetch\<close>. \<open>body\<close> holds the members of the payload that
  \<open>JSON.stringify\<close> serialises.
\<close>

record Request =
  url :: string
  http_method :: string
  headers :: "(string \<times> string) list"
  body :: "(string \<times> string) list"

record CatalogService =
  apiUrl :: string
  apiKey :: "string option"
  defaultPayload :: "(string \<times> string) list"

text \<open>
  The constructor. \<open>env\<close> is \<open>process.env\<close>, made a parameter; the constructor does not
  read it.
\<close>

definition CatalogService_constructor :: "(string \<Rightarrow> string option) \<Rightarrow> CatalogService" where
  "CatalogService_constructor env =
     \<lparr>apiUrl = ''https://uat.ledgersapi.com/catalog/indiafilings-catalog/api'',
      apiKey = Some ''p4xI6QzOPI4EyFg38qtcJ1nImIFru7zW3LcrSIOh'',
      defaultPayload = [(''operation'', ''catalog_v2''), (''catalog_id'', ''230''), (''type'', ''1'')]\<rparr>"

text \<open>
  \<open>data.key\<close> for the keys \<open>catalog\<close> and \<open>data\<close>. Reading a property of \<open>null\<close> throws a
  \<open>TypeError\<close> (the message is the one of V8); on a boolean, a number, a string or an
  array these two keys are \<open>undefined\<close> (\<open>None\<close>); on an object the last member of that
  name counts, as \<open>JSON.parse\<close> has it.
\<close>

fun getProp :: "'a json \<Rightarrow> string \<Rightarrow> js_exn + 'a json option" where
  "getProp JNull key =
     Inl (Error (''Cannot read properties of null (reading '' @ [CHR 0x27] @ key @ [CHR 0x27] @ '')''))"
| "getProp (JObject members) key = Inr (map_of (rev members) key)"
| "getProp (JBool b) key = Inr None"
| "getProp (JNumber n) key = Inr None"
| "getProp (JString s) key = Inr None"
| "getProp (JArray xs) key = Inr None"

fun truthyValue :: "'a json option \<Rightarrow> bool" where
  "truthyValue None = False"
| "truthyValue (Some JNull) = False"
| "truthyValue (Some (JBool b)) = b"
| "truthyValue (Some (JNumber n)) = (n \<noteq> 0)"
| "truthyValue (Some (JString s)) = (s \<noteq> [])"
| "truthyValue (Some (JArray xs)) = True"
| "truthyValue (Some (JObject members)) = True"

fun isArray :: "'a json option \<Rightarrow> bool" where
  "isArray (Some (JArray xs)) = True"
| "isArray v = False"

fun elements :: "'a json option \<Rightarrow> 'a list" where
  "elements (Some (JArray xs)) = xs"
| "elements v = []"

text \<open>
  The block \<open>let catalog = []; if (Array.isArray(data)) ... else if ... else if ...\<close> of
  \<open>fetchCatalog\<close>, with the exception a property read can throw.
\<close>

definition normalizeBody :: "'a json \<Rightarrow> js_exn + 'a list" where
  "normalizeBody data =
     (if isArray (Some data) then Inr (elements (Some data))
      else
        (case getProp data ''catalog'' of
           Inl e \<Rightarrow> Inl e
         | Inr c \<Rightarrow>
             (if truthyValue c \<and> isArray c then Inr (elements c)
              else
                (case getProp data ''data'' of
                   Inl e \<Rightarrow> Inl e
                 | Inr d \<Rightarrow>
                     (if truthyValue d \<and> isArray d then Inr (elements d) else Inr [])))))"

text \<open>The \<open>catch\<close> clause: \<open>error instanceof Error ? error.message : "..."\<close>.\<close>

fun catchMessage :: "js_exn \<Rightarrow> string" where
  "catchMessage (Error message) = message"
| "catchMessage NonError = ''Failed to fetch catalog data''"

definition fetchRequest :: "CatalogService \<Rightarrow> Request" where
  "fetchRequest svc =
     \<lparr>url = apiUrl svc,
      http_method = ''POST'',
      headers = [(''x-api-key'', orEmpty (apiKey svc)), (''Content-Type'', ''application/json'')],
      body = defaultPayload svc\<rparr>"

text \<open>
  \<open>fetchCatalog\<close>. The network is the parameter \<open>transport\<close>, which answers a request with
  a response or a rejection; the second component of the result lists the requests sent,
  in order. The development-only \<open>console.log\<close> is left out.
\<close>

definition fetchCatalog ::
  "CatalogService \<Rightarrow> (Request \<Rightarrow> 'a Response outcome) \<Rightarrow> 'a CatalogResponse \<times> Request list" where
  "fetchCatalog svc transport =
     (if \<not> truthy (apiKey svc) then
        (\<lparr>catalog = [],
          error = Some ''API key not configured. Please set CATALOG_API_KEY environment variable.''\<rparr>,
         [])
      else
        let req = fetchRequest svc in
        (case transport req of
           Throws e \<Rightarrow> \<lparr>catalog = [], error = Some (catchMessage e)\<rparr>
         | Returns response \<Rightarrow>
             if \<not> ok response then
               \<lparr>catalog = [],
                error = Some (''Failed to fetch catalog: '' @ numberToString (status response)
                              @ '' '' @ statusText response)\<rparr>
             else
               (case response_json response of
                  Throws e \<Rightarrow> \<lparr>catalog = [], error = Some (catchMessage e)\<rparr>
                | Returns data \<Rightarrow>
                    (case normalizeBody data of
                       Inl e \<Rightarrow> \<lparr>catalog = [], error = Some (catchMessage e)\<rparr>
                     | Inr items \<Rightarrow> \<lparr>catalog = items, error = None\<rparr>)),
         [req]))"

section \<open>FilterEngine and InvocationAdapter: the \<open>show_pricing\<close> tool\<close>

record WidgetMeta =
  outputTemplate :: string
  invoking :: string
  invoked :: string
  widgetAccessible :: bool
  resultCanProduceWidget :: bool

definition widgetMeta_pricing :: WidgetMeta where
  "widgetMeta_pricing =
     \<lparr>outputTemplate = ''ui://widget/pricing-template.html'',
      invoking = ''Loading pricing catalog...'',
      invoked = ''Pricing catalog loaded'',
      widgetAccessible = False,
      resultCanProduceWidget = True\<rparr>"

text \<open>\<open>structuredContent\<close>: \<open>serviceName\<close> is a string or \<open>null\<close>; the other optional keys
  are \<open>None\<close> when the returned object does not have them.\<close>

record StructuredContent =
  sc_serviceName :: "string option"
  sc_catalog :: "CatalogItem list"
  sc_count :: "nat option"
  sc_error :: "string option"
  sc_message :: "string option"

record ToolResult =
  content_text :: string
  structuredContent :: StructuredContent
  meta :: WidgetMeta

text \<open>\<open>item.field?.toLowerCase() || ''\<close>.\<close>

definition lowerOrEmpty :: "string option \<Rightarrow> string" where
  "lowerOrEmpty field = (case field of None \<Rightarrow> [] | Some s \<Rightarrow> toLowerCase s)"

text \<open>The callback given to \<open>catalog.filter\<close>, for a truthy \<open>serviceName\<close>.\<close>

definition itemMatches :: "string \<Rightarrow> CatalogItem \<Rightarrow> bool" where
  "itemMatches serviceName item =
     (let searchTerm = trim (toLowerCase serviceName);
          serviceNameLower = lowerOrEmpty (service_name item);
          variantNameLower = lowerOrEmpty (variant_name item);
          categoryLower = lowerOrEmpty (category item)
      in str_includes serviceNameLower searchTerm
         \<or> str_includes variantNameLower searchTerm
         \<or> str_includes categoryLower searchTerm)"

text \<open>\<open>const filteredCatalog = serviceName ? catalog.filter(...) : catalog\<close>.\<close>

definition filteredCatalog :: "string option \<Rightarrow> CatalogItem list \<Rightarrow> CatalogItem list" where
  "filteredCatalog serviceName items =
     (if truthy serviceName then filter (itemMatches (orEmpty serviceName)) items else items)"

text \<open>\<open>serviceName || null\<close>.\<close>

definition orNull :: "string option \<Rightarrow> string option" where
  "orNull serviceName = (if truthy serviceName then serviceName else None)"

definition quoted :: "string \<Rightarrow> string" where
  "quoted s = [CHR 0x22] @ s @ [CHR 0x22]"

text \<open>
  The tool callback after \<open>await catalogService.fetchCatalog()\<close>: the first argument is
  what the fetch returned.
\<close>

definition show_pricing_callback :: "CatalogItem CatalogResponse \<Rightarrow> string option \<Rightarrow> ToolResult" where
  "show_pricing_callback fetched serviceName =
     (if truthy (error fetched) then
        \<lparr>content_text = ''Error fetching catalog: '' @ orEmpty (error fetched)
                          @ ''. Please check the API configuration.'',
         structuredContent =
           \<lparr>sc_serviceName = orNull serviceName, sc_catalog = [], sc_count = None,
            sc_error = error fetched, sc_message = None\<rparr>,
         meta = widgetMeta_pricing\<rparr>
      else if length (filteredCatalog serviceName (catalog fetched)) = 0 then
        \<lparr>content_text =
           (if truthy serviceName
            then ''No services found matching '' @ quoted (orEmpty serviceName)
                 @ ''. Showing all available services.''
            else ''No services available in the catalog.''),
         structuredContent =
           \<lparr>sc_serviceName = orNull serviceName, sc_catalog = catalog fetched,
            sc_count = Some (length (catalog fetched)), sc_error = None,
            sc_message = Some (if truthy serviceName then ''No matching services found, showing all''
                               else ''No services available'')\<rparr>,
         meta = widgetMeta_pricing\<rparr>
      else
        \<lparr>content_text =
           ''Found '' @ numberToString (length (filteredCatalog serviceName (catalog fetched)))
           @ '' service(s)''
           @ (if truthy serviceName then '' matching '' @ quoted (orEmpty serviceName) else [])
           @ ''.'',
         structuredContent =
           \<lparr>sc_serviceName = orNull serviceName,
            sc_catalog = filteredCatalog serviceName (catalog fetched),
            sc_count = Some (length (filteredCatalog serviceName (catalog fetched))),
            sc_error = None, sc_message = None\<rparr>,
         meta = widgetMeta_pricing\<rparr>)"

text \<open>The whole tool: fetch, then the callback's body.\<close>

definition show_pricing ::
  "CatalogService \<Rightarrow> (Request \<Rightarrow> CatalogItem Response outcome) \<Rightarrow> string option \<Rightarrow> ToolResult" where
  "show_pricing svc transport serviceName =
     show_pricing_callback (fst (fetchCatalog svc transport)) serviceName"

section \<open>SurfaceController: selection in \<open>Home\<close>\<close>

text \<open>\<open>interface ToolOutput\<close>; every key is optional.\<close>

record ToolOutput =
  to_serviceName :: "string option"
  to_catalog :: "CatalogItem list option"
  to_error :: "string option"
  to_count :: "nat option"
  to_message :: "string option"

text \<open>The widget state: \<open>{ selectedCardId: number | null }\<close>.\<close>

record WidgetState =
  selectedCardId :: "int option"

text \<open>What a render of \<open>Home\<close> reads: the values of its hooks.\<close>

record HomeState =
  toolOutput :: "ToolOutput option"
  widgetState :: "WidgetState option"
  localCatalog :: "CatalogItem list"
  loading :: bool
  localError :: "string option"

text \<open>\<open>toolOutput?.catalog || []\<close>.\<close>

definition catalogFromTool :: "HomeState \<Rightarrow> CatalogItem list" where
  "catalogFromTool st =
     (case toolOutput st of
        None \<Rightarrow> []
      | Some out \<Rightarrow> (case to_catalog out of None \<Rightarrow> [] | Some items \<Rightarrow> items))"

text \<open>\<open>const catalog = catalogFromTool.length > 0 ? catalogFromTool : localCatalog\<close>: the
  displayed set.\<close>

definition Home_catalog :: "HomeState \<Rightarrow> CatalogItem list" where
  "Home_catalog st = (if length (catalogFromTool st) > 0 then catalogFromTool st else localCatalog st)"

text \<open>
  \<open>const selectedCard = widgetState?.selectedCardId ? catalog.find(...) || null : null\<close>.
  The condition is a number, \<open>null\<close> or \<open>undefined\<close> in a boolean position: \<open>null\<close>,
  \<open>undefined\<close> and the number \<open>0\<close> are falsy. An item is an object, so \<open>|| null\<close> only
  turns the \<open>undefined\<close> of a miss into \<open>null\<close>.
\<close>

definition selectedCard :: "HomeState \<Rightarrow> CatalogItem option" where
  "selectedCard st =
     (case widgetState st of
        None \<Rightarrow> None
      | Some w \<Rightarrow>
          (case selectedCardId w of
             None \<Rightarrow> None
           | Some i \<Rightarrow>
               if i \<noteq> 0 then List.find (\<lambda>item. item_id item = i) (Home_catalog st)
               else None))"

text \<open>
  Modelled from the spec: the hook \<open>useWidgetState\<close> is not among the sources; its setter
  stores the value it is given as the widget state ("selecting an item stores its
  identifier in SelectionState ... clearing selection stores the absent value"). The
  height notification that follows has no part in the state.
\<close>

definition setWidgetState :: "WidgetState \<Rightarrow> HomeState \<Rightarrow> HomeState" where
  "setWidgetState w st = st\<lparr>widgetState := Some w\<rparr>"

definition handleCardClick :: "CatalogItem \<Rightarrow> HomeState \<Rightarrow> HomeState" where
  "handleCardClick item st = setWidgetState \<lparr>selectedCardId = Some (item_id item)\<rparr> st"

definition handleCloseDetails :: "HomeState \<Rightarrow> HomeState" where
  "handleCloseDetails st = setWidgetState \<lparr>selectedCardId = None\<rparr> st"

section \<open>Example data\<close>

definition exampleItem :: "int \<Rightarrow> string \<Rightarrow> string \<Rightarrow> string \<Rightarrow> CatalogItem" where
  "exampleItem i sn vn cat =
     \<lparr>item_id = i, service_name = Some sn, variant_name = Some vn, description = None,
      price = 0, market_price = 0, currency = None, rating = None, customers = 0,
      delivery_time = 0, category = Some cat, page_url = None, about = None,
      unit_label = None\<rparr>"

text \<open>An item whose three searched fields are all missing.\<close>

definition bareItem :: "int \<Rightarrow> CatalogItem" where
  "bareItem i =
     \<lparr>item_id = i, service_name = None, variant_name = None, description = None,
      price = 0, market_price = 0, currency = None, rating = None, customers = 0,
      delivery_time = 0, category = None, page_url = None, about = None,
      unit_label = None\<rparr>"

definition noEnv :: "string \<Rightarrow> string option" where
  "noEnv name = None"

text \<open>A transport that answers every request with status 200 and the given body.\<close>

definition respondWith :: "'a json \<Rightarrow> Request \<Rightarrow> 'a Response outcome" where
  "respondWith data req =
     Returns \<lparr>ok = True, status = 200, statusText = ''OK'', response_json = Returns data\<rparr>"

definition initialHome :: "CatalogItem list \<Rightarrow> HomeState" where
  "initialHome items =
     \<lparr>toolOutput = Some \<lparr>to_serviceName = None, to_catalog = Some items, to_error = None,
                          to_count = Some (length items), to_message = None\<rparr>,
      widgetState = Some \<lparr>selectedCardId = None\<rparr>,
      localCatalog = [], loading = False, localError = None\<rparr>"

text \<open>The host delivers a tool output whose catalog is the given list.\<close>

definition receiveToolOutput :: "CatalogItem list \<Rightarrow> HomeState \<Rightarrow> HomeState" where
  "receiveToolOutput items st =
     st\<lparr>toolOutput := Some \<lparr>to_serviceName = None, to_catalog = Some items, to_error = None,
                               to_count = Some (length items), to_message = None\<rparr>\<rparr>"

section \<open>Substring search\<close>

text \<open>
  The two search functions compute the prefix and the contiguous-sublist relations of the
  list library.
\<close>

lemma isPrefixOf_prefix: "isPrefixOf t s = prefix t s"
  by (induction t s rule: isPrefixOf.induct) auto

lemma str_includes_sublist: "str_includes s t = sublist t s"
  by (induction s) (auto simp: isPrefixOf_prefix sublist_Cons_right)

lemma lowerOrEmpty_orEmpty: "lowerOrEmpty field = toLowerCase (orEmpty field)"
  by (cases field) (simp_all add: lowerOrEmpty_def orEmpty_def toLowerCase_def)

section \<open>Properties of the filter\<close>

text \<open>
  C5. Whatever the query, the filter returns a subsequence of its input: some of the
  items, in the order they had. With no query, or with the empty string as the query, it
  returns the input list itself.
\<close>

theorem filteredCatalog_subseq_identity:
  "subseq (filteredCatalog query items) items
    \<and> filteredCatalog None items = items
    \<and> filteredCatalog (Some []) items = items"
  by (simp add: filteredCatalog_def truthy_def)

theorem filteredCatalog_subseq_identity_witness:
  "subseq (filteredCatalog (Some ''dela'') [bareItem 1, exampleItem 2 ''USA'' ''Delaware'' ''Inc'', bareItem 3])
      [bareItem 1, exampleItem 2 ''USA'' ''Delaware'' ''Inc'', bareItem 3]
   \<and> filteredCatalog (Some ''dela'') [bareItem 1, exampleItem 2 ''USA'' ''Delaware'' ''Inc'', bareItem 3]
       = [exampleItem 2 ''USA'' ''Delaware'' ''Inc'']
   \<and> filteredCatalog (Some []) [bareItem 1, bareItem 3] = [bareItem 1, bareItem 3]"
proof -
  have "filteredCatalog (Some ''dela'') [bareItem 1, exampleItem 2 ''USA'' ''Delaware'' ''Inc'', bareItem 3]
       = [exampleItem 2 ''USA'' ''Delaware'' ''Inc'']"
    by code_simp
  with filteredCatalog_subseq_identity
    [of "Some ''dela''" "[bareItem 1, exampleItem 2 ''USA'' ''Delaware'' ''Inc'', bareItem 3]"]
    filteredCatalog_subseq_identity [of None "[bareItem 1, bareItem 3]"]
  show ?thesis by simp
qed

text \<open>
  C4. For a single item and a query \<open>q\<close>, the filter keeps the item exactly when the
  lower-cased and trimmed \<open>q\<close> is a substring of the lower-cased service name, variant
  name or category of the item, a missing field counting as the empty string; otherwise
  it returns the empty list.
\<close>

theorem filteredCatalog_single_item:
  "filteredCatalog (Some q) [item] =
     (if sublist (trim (toLowerCase q)) (toLowerCase (orEmpty (service_name item)))
         \<or> sublist (trim (toLowerCase q)) (toLowerCase (orEmpty (variant_name item)))
         \<or> sublist (trim (toLowerCase q)) (toLowerCase (orEmpty (category item)))
      then [item] else [])"
proof (cases "q = []")
  case True
  then show ?thesis
    by (simp add: filteredCatalog_def truthy_def trim_def toLowerCase_def)
next
  case False
  then show ?thesis
    by (simp add: filteredCatalog_def truthy_def orEmpty_def itemMatches_def Let_def
        str_includes_sublist lowerOrEmpty_orEmpty)
qed

theorem filteredCatalog_single_item_witness:
  "filteredCatalog (Some '' DELA '') [exampleItem 2 ''USA'' ''Delaware'' ''Inc'']
     = [exampleItem 2 ''USA'' ''Delaware'' ''Inc'']
   \<and> filteredCatalog (Some ''usa'') [bareItem 5] = []"
proof -
  have a: "sublist (trim (toLowerCase '' DELA ''))
     (toLowerCase (orEmpty (variant_name (exampleItem 2 ''USA'' ''Delaware'' ''Inc''))))"
    by code_simp
  have b: "\<not> sublist (trim (toLowerCase ''usa'')) (toLowerCase (orEmpty (service_name (bareItem 5))))"
       "\<not> sublist (trim (toLowerCase ''usa'')) (toLowerCase (orEmpty (variant_name (bareItem 5))))"
       "\<not> sublist (trim (toLowerCase ''usa'')) (toLowerCase (orEmpty (category (bareItem 5))))"
    by code_simp+
  show ?thesis
    using filteredCatalog_single_item [of "'' DELA ''" "exampleItem 2 ''USA'' ''Delaware'' ''Inc''"]
      filteredCatalog_single_item [of "''usa''" "bareItem 5"] a b
    by simp
qed

section \<open>Properties of the asset lookup\<close>

lemma scanEntries_no_match:
  "\<forall>(location, imageUrl) \<in> set entries. location = ''default'' \<or> \<not> str_includes searchText location
   \<Longrightarrow> scanEntries searchText entries = None"
  by (induction entries) auto

text \<open>
  C2, as the spec states it: \<open>getVariantImageUrl("Atlantis", "Mystery Co")\<close> returns the
  \<open>default\<close> URL because no keyword occurs in the input. It does not hold: the searched
  text is \<open>atlantis mystery co\<close>, the keyword \<open>la\<close> occurs in \<open>atlantis\<close>, and the URL
  returned is not the one stored under \<open>default\<close>.
\<close>

theorem getVariantImageUrl_Atlantis_counterexample:
  "str_includes (searchTextOf (Some ''Atlantis'') (Some ''Mystery Co'')) ''la''
   \<and> getVariantImageUrl (Some ''Atlantis'') (Some ''Mystery Co'') \<noteq> locationImageMap_default"
  by code_simp

text \<open>
  C2, amended: \<open>getVariantImageUrl("Atlantis", "Mystery Co")\<close> returns the URL stored under
  the key \<open>la\<close>, the first keyword of the map that occurs in the lower-cased text; the
  \<open>default\<close> URL is what the function returns for an input in which no keyword other than
  \<open>default\<close> occurs.
\<close>

theorem getVariantImageUrl_Atlantis_la:
  "getVariantImageUrl (Some ''Atlantis'') (Some ''Mystery Co'') = orEmpty (map_of locationImageMap ''la'')
   \<and> ((\<forall>(location, imageUrl) \<in> set locationImageMap.
          location = ''default'' \<or> \<not> str_includes (searchTextOf variantName serviceName) location)
        \<longrightarrow> getVariantImageUrl variantName serviceName = locationImageMap_default)"
proof -
  have "getVariantImageUrl (Some ''Atlantis'') (Some ''Mystery Co'') = orEmpty (map_of locationImageMap ''la'')"
    by code_simp
  then show ?thesis
    by (simp add: getVariantImageUrl_def scanEntries_no_match)
qed

theorem getVariantImageUrl_Atlantis_la_witness:
  "list_all (\<lambda>(location, imageUrl).
       location = ''default'' \<or> \<not> str_includes (searchTextOf (Some ''Utopia'') (Some ''Mystery Co'')) location)
     locationImageMap
   \<and> getVariantImageUrl (Some ''Utopia'') (Some ''Mystery Co'') = locationImageMap_default
   \<and> getVariantImageUrl (Some ''Atlantis'') (Some ''Mystery Co'') = url_sanFrancisco"
proof -
  have h: "list_all (\<lambda>(location, imageUrl).
       location = ''default'' \<or> \<not> str_includes (searchTextOf (Some ''Utopia'') (Some ''Mystery Co'')) location)
     locationImageMap"
    by code_simp
  have la: "orEmpty (map_of locationImageMap ''la'') = url_sanFrancisco"
    by code_simp
  from h have h': "\<forall>(location, imageUrl) \<in> set locationImageMap.
      location = ''default'' \<or> \<not> str_includes (searchTextOf (Some ''Utopia'') (Some ''Mystery Co'')) location"
    by (simp only: list_all_iff)
  show ?thesis
    using getVariantImageUrl_Atlantis_la [of "Some ''Utopia''" "Some ''Mystery Co''"] h h' la
    by simp
qed

section \<open>Properties of the gateway\<close>

text \<open>
  C6. When the credential of the service is absent (\<open>undefined\<close> or the empty string),
  \<open>fetchCatalog\<close> returns the empty catalog with the fixed, non-empty message about the
  missing key, and sends no request.
\<close>

theorem fetchCatalog_no_credential:
  assumes "\<not> truthy (apiKey svc)"
  shows "fetchCatalog svc transport =
           (\<lparr>catalog = [],
             error = Some ''API key not configured. Please set CATALOG_API_KEY environment variable.''\<rparr>,
            [])
         \<and> truthy (error (fst (fetchCatalog svc transport)))"
  using assms by (simp add: fetchCatalog_def truthy_def)

theorem fetchCatalog_no_credential_witness:
  "\<not> truthy (apiKey ((CatalogService_constructor noEnv)\<lparr>apiKey := None\<rparr>))
   \<and> catalog (fst (fetchCatalog ((CatalogService_constructor noEnv)\<lparr>apiKey := None\<rparr>)
                     (respondWith (JArray [bareItem 1])))) = []
   \<and> truthy (error (fst (fetchCatalog ((CatalogService_constructor noEnv)\<lparr>apiKey := None\<rparr>)
                     (respondWith (JArray [bareItem 1])))))
   \<and> snd (fetchCatalog ((CatalogService_constructor noEnv)\<lparr>apiKey := None\<rparr>)
                     (respondWith (JArray [bareItem 1]))) = []"
proof -
  have h: "\<not> truthy (apiKey ((CatalogService_constructor noEnv)\<lparr>apiKey := None\<rparr>))"
    by (simp add: truthy_def)
  show ?thesis
    using fetchCatalog_no_credential [OF h, of "respondWith (JArray [bareItem 1])"] h
    by (simp add: truthy_def)
qed

text \<open>
  C9. The constructor sets the credential to one fixed, non-empty string, whatever the
  environment holds; so \<open>fetchCatalog\<close> on a constructed service never takes the
  missing-credential branch: every call sends exactly one request.
\<close>

theorem CatalogService_constructor_credential:
  "apiKey (CatalogService_constructor env) = Some ''p4xI6QzOPI4EyFg38qtcJ1nImIFru7zW3LcrSIOh''
   \<and> truthy (apiKey (CatalogService_constructor env))
   \<and> CatalogService_constructor env = CatalogService_constructor env'
   \<and> snd (fetchCatalog (CatalogService_constructor env) transport)
       = [fetchRequest (CatalogService_constructor env)]"
  by (simp add: CatalogService_constructor_def truthy_def fetchCatalog_def Let_def)

text \<open>
  The three accepted shapes of a body, and the shapes that give the empty list: every
  body but \<open>null\<close> that is no array and has no array under \<open>catalog\<close> or \<open>data\<close>.
\<close>

lemma normalizeBody_bare_array: "normalizeBody (JArray xs) = Inr xs"
  by (simp add: normalizeBody_def)

lemma normalizeBody_catalog_array:
  "getProp data ''catalog'' = Inr (Some (JArray xs)) \<Longrightarrow> normalizeBody data = Inr xs"
  by (cases data) (simp_all add: normalizeBody_def)

lemma normalizeBody_data_array:
  "getProp data ''catalog'' = Inr c \<Longrightarrow> \<not> isArray c
   \<Longrightarrow> getProp data ''data'' = Inr (Some (JArray xs)) \<Longrightarrow> normalizeBody data = Inr xs"
  by (cases data) (simp_all add: normalizeBody_def)

lemma normalizeBody_data_like_catalog:
  "normalizeBody (JObject [(''data'', JArray xs)]) = normalizeBody (JObject [(''catalog'', JArray xs)])"
  by (simp add: normalizeBody_def)

lemma normalizeBody_other_shape:
  "data \<noteq> JNull \<Longrightarrow> \<not> isArray (Some data)
   \<Longrightarrow> \<forall>c. getProp data ''catalog'' = Inr c \<longrightarrow> \<not> isArray c
   \<Longrightarrow> \<forall>d. getProp data ''data'' = Inr d \<longrightarrow> \<not> isArray d
   \<Longrightarrow> normalizeBody data = Inr []"
  by (cases data) (simp_all add: normalizeBody_def)

lemma normalizeBody_throws_only_on_null:
  "(\<exists>e. normalizeBody data = Inl e) = (data = JNull)"
  by (cases data) (auto simp: normalizeBody_def)

text \<open>
  C3 says that a body of any shape other than the three accepted ones gives the empty
  list with no error set. For the body \<open>null\<close> (status 200) the code instead returns the
  empty list together with an error: reading \<open>data.catalog\<close> throws, and the \<open>catch\<close>
  clause reports the message of the exception.
\<close>

theorem fetchCatalog_null_body:
  "fetchCatalog (CatalogService_constructor env) (respondWith JNull) =
     (\<lparr>catalog = [],
       error = Some (''Cannot read properties of null (reading '' @ [CHR 0x27] @ ''catalog''
                     @ [CHR 0x27] @ '')'')\<rparr>,
      [fetchRequest (CatalogService_constructor env)])
   \<and> truthy (error (fst (fetchCatalog (CatalogService_constructor env) (respondWith JNull))))"
  by (simp add: CatalogService_constructor_def truthy_def fetchCatalog_def Let_def respondWith_def
      normalizeBody_def)

section \<open>Properties of the tool\<close>

text \<open>
  C1. When the tool is called with a query \<open>q\<close>, the fetch reports no error, the fetched
  list is not empty and no fetched item matches \<open>q\<close>, the result carries the whole
  fetched list, its length as the count, and the message that nothing matched; the text
  says the same and quotes \<open>q\<close>.
\<close>

theorem show_pricing_no_match_returns_all:
  assumes fetched: "fetched = fst (fetchCatalog svc transport)"
    and ok: "\<not> truthy (error fetched)"
    and empty: "filteredCatalog (Some q) (catalog fetched) = []"
    and full: "catalog fetched \<noteq> []"
  shows "structuredContent (show_pricing svc transport (Some q)) =
           \<lparr>sc_serviceName = Some q, sc_catalog = catalog fetched,
            sc_count = Some (length (catalog fetched)), sc_error = None,
            sc_message = Some ''No matching services found, showing all''\<rparr>
         \<and> content_text (show_pricing svc transport (Some q)) =
             ''No services found matching '' @ quoted q @ ''. Showing all available services.''"
proof -
  from empty full have q: "truthy (Some q)"
    by (auto simp: filteredCatalog_def split: if_splits)
  with fetched ok empty show ?thesis
    by (simp add: show_pricing_def show_pricing_callback_def orNull_def orEmpty_def)
qed

theorem show_pricing_no_match_returns_all_witness:
  "\<not> truthy (error (fst (fetchCatalog (CatalogService_constructor noEnv)
        (respondWith (JObject [(''catalog'', JArray [exampleItem 1 ''USA'' ''Delaware'' ''Inc'', bareItem 2])])))))
   \<and> filteredCatalog (Some ''zzz'') [exampleItem 1 ''USA'' ''Delaware'' ''Inc'', bareItem 2] = []
   \<and> sc_catalog (structuredContent (show_pricing (CatalogService_constructor noEnv)
        (respondWith (JObject [(''catalog'', JArray [exampleItem 1 ''USA'' ''Delaware'' ''Inc'', bareItem 2])]))
        (Some ''zzz''))) = [exampleItem 1 ''USA'' ''Delaware'' ''Inc'', bareItem 2]
   \<and> sc_count (structuredContent (show_pricing (CatalogService_constructor noEnv)
        (respondWith (JObject [(''catalog'', JArray [exampleItem 1 ''USA'' ''Delaware'' ''Inc'', bareItem 2])]))
        (Some ''zzz''))) = Some 2
   \<and> sc_message (structuredContent (show_pricing (CatalogService_constructor noEnv)
        (respondWith (JObject [(''catalog'', JArray [exampleItem 1 ''USA'' ''Delaware'' ''Inc'', bareItem 2])]))
        (Some ''zzz''))) = Some ''No matching services found, showing all''"
proof -
  let ?items = "[exampleItem 1 ''USA'' ''Delaware'' ''Inc'', bareItem 2]"
  let ?svc = "CatalogService_constructor noEnv"
  let ?tr = "respondWith (JObject [(''catalog'', JArray ?items)])"
  have f: "fst (fetchCatalog ?svc ?tr) = \<lparr>catalog = ?items, error = None\<rparr>"
    by (simp add: fetchCatalog_def CatalogService_constructor_def truthy_def respondWith_def
        normalizeBody_def Let_def)
  have ok: "\<not> truthy (error (fst (fetchCatalog ?svc ?tr)))"
    by (simp add: f truthy_def)
  have empty: "filteredCatalog (Some ''zzz'') ?items = []"
    by code_simp
  have empty': "filteredCatalog (Some ''zzz'') (catalog (fst (fetchCatalog ?svc ?tr))) = []"
    by (simp add: f empty)
  have full: "catalog (fst (fetchCatalog ?svc ?tr)) \<noteq> []"
    by (simp add: f)
  show ?thesis
    using show_pricing_no_match_returns_all [OF refl ok empty' full] ok empty
    by (simp add: f)
qed

lemma str_includes_middle: "str_includes (p @ t @ r) t"
  by (simp add: str_includes_sublist)

text \<open>
  C7, as the spec states it: the text of every non-error result states the number of
  items returned. It does not hold when nothing matches: with one fetched item and the
  query \<open>zzz\<close> the result has no error and returns one item, and the text does not
  contain \<open>1\<close>.
\<close>

theorem show_pricing_summary_counterexample:
  "sc_error (structuredContent (show_pricing_callback
       \<lparr>catalog = [exampleItem 1 ''USA'' ''Delaware'' ''Inc''], error = None\<rparr> (Some ''zzz''))) = None
   \<and> length (sc_catalog (structuredContent (show_pricing_callback
       \<lparr>catalog = [exampleItem 1 ''USA'' ''Delaware'' ''Inc''], error = None\<rparr> (Some ''zzz'')))) = 1
   \<and> \<not> str_includes (content_text (show_pricing_callback
       \<lparr>catalog = [exampleItem 1 ''USA'' ''Delaware'' ''Inc''], error = None\<rparr> (Some ''zzz'')))
       (numberToString (length (sc_catalog (structuredContent (show_pricing_callback
       \<lparr>catalog = [exampleItem 1 ''USA'' ''Delaware'' ''Inc''], error = None\<rparr> (Some ''zzz''))))))"
  by code_simp

text \<open>
  C7, amended: for a result without error, the text echoes the query whenever one was
  supplied. When the filtered list is not empty the text is \<open>Found n service(s)\<close>,
  followed by the quoted query if there is a non-empty one, and a full stop, where \<open>n\<close>
  is the number of items returned. When the filtered list is empty the text is one of
  two fixed sentences, neither of which carries a count.
\<close>

theorem show_pricing_summary:
  assumes ok: "\<not> truthy (error fetched)"
  shows
    "(filteredCatalog serviceName (catalog fetched) \<noteq> [] \<longrightarrow>
        content_text (show_pricing_callback fetched serviceName) =
          ''Found ''
          @ numberToString (length (sc_catalog (structuredContent (show_pricing_callback fetched serviceName))))
          @ '' service(s)''
          @ (if truthy serviceName then '' matching '' @ quoted (orEmpty serviceName) else [])
          @ ''.''
        \<and> str_includes (content_text (show_pricing_callback fetched serviceName))
            (numberToString (length (sc_catalog (structuredContent (show_pricing_callback fetched serviceName))))))
     \<and> (filteredCatalog serviceName (catalog fetched) = [] \<longrightarrow>
          content_text (show_pricing_callback fetched serviceName) =
            (if truthy serviceName
             then ''No services found matching '' @ quoted (orEmpty serviceName)
                  @ ''. Showing all available services.''
             else ''No services available in the catalog.''))
     \<and> (\<forall>q. serviceName = Some q \<longrightarrow>
          str_includes (content_text (show_pricing_callback fetched serviceName)) q)"
proof -
  let ?r = "show_pricing_callback fetched serviceName"
  let ?f = "filteredCatalog serviceName (catalog fetched)"
  have found: "content_text ?r =
      ''Found '' @ numberToString (length ?f) @ ('' service(s)''
          @ (if truthy serviceName then '' matching '' @ quoted (orEmpty serviceName) else [])
          @ ''.'')"
    and cat: "sc_catalog (structuredContent ?r) = ?f" if "?f \<noteq> []"
    using ok that by (simp_all add: show_pricing_callback_def)
  have none: "content_text ?r =
            (if truthy serviceName
             then ''No services found matching '' @ quoted (orEmpty serviceName)
                  @ ''. Showing all available services.''
             else ''No services available in the catalog.'')" if "?f = []"
    using ok that by (simp add: show_pricing_callback_def)
  have echo: "str_includes (content_text ?r) q" if q: "serviceName = Some q" for q
  proof (cases "q = []")
    case True
    then show ?thesis by (simp add: str_includes_sublist)
  next
    case False
    with q have t: "truthy serviceName" "orEmpty serviceName = q"
      by (simp_all add: truthy_def orEmpty_def)
    show ?thesis
    proof (cases "?f = []")
      case True
      have "str_includes ((''No services found matching '' @ [CHR 0x22]) @ q
               @ ([CHR 0x22] @ ''. Showing all available services.'')) q"
        by (rule str_includes_middle)
      with none [OF True] t show ?thesis by (simp add: quoted_def)
    next
      case False
      have "str_includes ((''Found '' @ numberToString (length ?f) @ '' service(s)''
                @ '' matching '' @ [CHR 0x22]) @ q @ ([CHR 0x22] @ ''.'')) q"
        by (rule str_includes_middle)
      with found [OF False] t show ?thesis by (simp add: quoted_def)
    qed
  qed
  have count: "str_includes (content_text ?r) (numberToString (length (sc_catalog (structuredContent ?r))))"
    if ne: "?f \<noteq> []"
  proof -
    have "str_includes (''Found '' @ numberToString (length ?f) @ ('' service(s)''
          @ (if truthy serviceName then '' matching '' @ quoted (orEmpty serviceName) else [])
          @ ''.'')) (numberToString (length ?f))"
      by (rule str_includes_middle)
    with found [OF ne] cat [OF ne] show ?thesis by simp
  qed
  show ?thesis
    using found cat none echo count by simp
qed

theorem show_pricing_summary_witness:
  "\<not> truthy (error \<lparr>catalog = [exampleItem 1 ''USA'' ''Delaware'' ''Inc'', bareItem 2], error = None\<rparr>)
   \<and> content_text (show_pricing_callback
        \<lparr>catalog = [exampleItem 1 ''USA'' ''Delaware'' ''Inc'', bareItem 2], error = None\<rparr> (Some ''dela''))
      = ''Found 1 service(s) matching '' @ quoted ''dela'' @ ''.''
   \<and> str_includes (content_text (show_pricing_callback
        \<lparr>catalog = [exampleItem 1 ''USA'' ''Delaware'' ''Inc'', bareItem 2], error = None\<rparr> (Some ''dela'')))
        ''1''
   \<and> str_includes (content_text (show_pricing_callback
        \<lparr>catalog = [exampleItem 1 ''USA'' ''Delaware'' ''Inc'', bareItem 2], error = None\<rparr> (Some ''dela'')))
        ''dela''"
proof -
  let ?fetched = "\<lparr>catalog = [exampleItem 1 ''USA'' ''Delaware'' ''Inc'', bareItem 2], error = None\<rparr>"
  have ok: "\<not> truthy (error ?fetched)"
    by (simp add: truthy_def)
  have f: "filteredCatalog (Some ''dela'') (catalog ?fetched) = [exampleItem 1 ''USA'' ''Delaware'' ''Inc'']"
    by code_simp
  have r: "sc_catalog (structuredContent (show_pricing_callback ?fetched (Some ''dela'')))
      = [exampleItem 1 ''USA'' ''Delaware'' ''Inc'']"
    using f by (simp add: show_pricing_callback_def truthy_def)
  have n: "numberToString (Suc 0) = ''1''"
    by code_simp
  have t: "truthy (Some ''dela'')" "orEmpty (Some ''dela'') = ''dela''"
    by (simp_all add: truthy_def orEmpty_def)
  have ne: "filteredCatalog (Some ''dela'') (catalog ?fetched) \<noteq> []"
    unfolding f by simp
  note summary = show_pricing_summary [OF ok, of "Some ''dela''"]
  from summary ne
  have msg: "content_text (show_pricing_callback ?fetched (Some ''dela'')) =
          ''Found ''
          @ numberToString (length (sc_catalog (structuredContent (show_pricing_callback ?fetched (Some ''dela'')))))
          @ '' service(s)''
          @ (if truthy (Some ''dela'') then '' matching '' @ quoted (orEmpty (Some ''dela'')) else [])
          @ ''.''"
    and count: "str_includes (content_text (show_pricing_callback ?fetched (Some ''dela'')))
            (numberToString (length (sc_catalog (structuredContent (show_pricing_callback ?fetched (Some ''dela''))))))"
    by blast+
  from summary
  have echo: "str_includes (content_text (show_pricing_callback ?fetched (Some ''dela''))) ''dela''"
    by blast
  from msg have msg': "content_text (show_pricing_callback ?fetched (Some ''dela''))
      = ''Found 1 service(s) matching '' @ quoted ''dela'' @ ''.''"
    by (simp add: r n t)
  from count have count': "str_includes (content_text (show_pricing_callback ?fetched (Some ''dela''))) ''1''"
    by (simp only: r n list.size One_nat_def add_0 plus_nat.add_Suc)
  from ok msg' count' echo show ?thesis
    by blast
qed

section \<open>Properties of the selection\<close>

text \<open>
  What holds of the lookup in every state: a resolved item is a member of the displayed
  set and carries the stored identifier, and when no displayed item carries the stored
  identifier nothing is resolved (\<open>None\<close>, not an error).
\<close>

lemma selectedCard_in_displayed_set:
  "(\<forall>item. selectedCard st = Some item \<longrightarrow>
       item \<in> set (Home_catalog st)
       \<and> (\<exists>w. widgetState st = Some w \<and> selectedCardId w = Some (item_id item)))
   \<and> ((\<forall>w item. widgetState st = Some w \<and> item \<in> set (Home_catalog st)
          \<longrightarrow> selectedCardId w \<noteq> Some (item_id item))
       \<longrightarrow> selectedCard st = None)"
proof -
  have a: "item \<in> set (Home_catalog st)
       \<and> (\<exists>w. widgetState st = Some w \<and> selectedCardId w = Some (item_id item))"
    if "selectedCard st = Some item" for item
    using that
    by (auto simp: selectedCard_def find_Some_iff split: option.splits if_splits)
  have b: "selectedCard st = None"
    if "\<forall>w item. widgetState st = Some w \<and> item \<in> set (Home_catalog st)
          \<longrightarrow> selectedCardId w \<noteq> Some (item_id item)"
    using that
    by (auto simp: selectedCard_def find_None_iff split: option.splits)
  from a b show ?thesis by blast
qed

text \<open>Item 7 is selected and resolved; then a data set without item 7 arrives.\<close>

lemma selectedCard_after_new_data:
  "selectedCard (handleCardClick (bareItem 7) (initialHome [bareItem 7, bareItem 8])) = Some (bareItem 7)
   \<and> bareItem 7 \<in> set (Home_catalog (handleCardClick (bareItem 7) (initialHome [bareItem 7, bareItem 8])))
   \<and> selectedCard (receiveToolOutput [bareItem 8, bareItem 9]
        (handleCardClick (bareItem 7) (initialHome [bareItem 7, bareItem 8]))) = None"
proof -
  let ?st1 = "handleCardClick (bareItem 7) (initialHome [bareItem 7, bareItem 8])"
  let ?st2 = "receiveToolOutput [bareItem 8, bareItem 9] ?st1"
  have s1: "selectedCard ?st1 = Some (bareItem 7)"
    by code_simp
  have ws: "widgetState ?st2 = Some \<lparr>selectedCardId = Some 7\<rparr>"
    by (simp add: receiveToolOutput_def handleCardClick_def setWidgetState_def bareItem_def)
  have cat: "Home_catalog ?st2 = [bareItem 8, bareItem 9]"
    by (simp add: receiveToolOutput_def Home_catalog_def catalogFromTool_def)
  have miss: "\<forall>w item. widgetState ?st2 = Some w \<and> item \<in> set (Home_catalog ?st2)
          \<longrightarrow> selectedCardId w \<noteq> Some (item_id item)"
    unfolding ws cat by (auto simp: bareItem_def)
  from selectedCard_in_displayed_set [of ?st1] s1
  have "bareItem 7 \<in> set (Home_catalog ?st1)" by blast
  moreover from selectedCard_in_displayed_set [of ?st2] miss
  have "selectedCard ?st2 = None" by blast
  ultimately show ?thesis using s1 by simp
qed

text \<open>
  The found case: for a stored identifier other than 0 the lookup is \<open>find\<close> on the
  displayed set, so an identifier that some displayed item carries resolves to the first
  such item.
\<close>

lemma selectedCard_nonzero_find:
  assumes "widgetState st = Some \<lparr>selectedCardId = Some i\<rparr>" and "i \<noteq> 0"
  shows "selectedCard st = List.find (\<lambda>item. item_id item = i) (Home_catalog st)"
  using assms by (simp add: selectedCard_def)

lemma selectedCard_hit:
  assumes "widgetState st = Some \<lparr>selectedCardId = Some i\<rparr>" and "i \<noteq> 0"
    and "\<exists>item \<in> set (Home_catalog st). item_id item = i"
  shows "\<exists>item. selectedCard st = Some item \<and> item \<in> set (Home_catalog st) \<and> item_id item = i"
proof -
  from assms(3) obtain item where f: "List.find (\<lambda>item. item_id item = i) (Home_catalog st) = Some item"
    by (cases "List.find (\<lambda>item. item_id item = i) (Home_catalog st)") (auto simp: find_None_iff)
  then have "item_id item = i" and "item \<in> set (Home_catalog st)"
    by (auto simp: find_Some_iff)
  with f show ?thesis
    using selectedCard_nonzero_find [OF assms(1,2)] by simp
qed

text \<open>
  C8 says that, for every displayed set and every stored identifier, the resolved
  selected item is the displayed item that carries the stored identifier, and is absent
  only when the displayed set has no such item. For the stored identifier 0 the code
  resolves nothing although the item is displayed: the card of the item with identifier 0
  is clicked in a displayed set that holds it, the stored identifier is 0, and the
  resolved selected item is absent, while clicking the card of item 7 in the same set
  resolves item 7.
\<close>

theorem selectedCard_stored_zero_miss:
  "exampleItem 0 ''USA'' ''Delaware'' ''Inc''
     \<in> set (Home_catalog (handleCardClick (exampleItem 0 ''USA'' ''Delaware'' ''Inc'')
                (initialHome [bareItem 7, exampleItem 0 ''USA'' ''Delaware'' ''Inc''])))
   \<and> widgetState (handleCardClick (exampleItem 0 ''USA'' ''Delaware'' ''Inc'')
                (initialHome [bareItem 7, exampleItem 0 ''USA'' ''Delaware'' ''Inc'']))
       = Some \<lparr>selectedCardId = Some (item_id (exampleItem 0 ''USA'' ''Delaware'' ''Inc''))\<rparr>
   \<and> selectedCard (handleCardClick (exampleItem 0 ''USA'' ''Delaware'' ''Inc'')
                (initialHome [bareItem 7, exampleItem 0 ''USA'' ''Delaware'' ''Inc''])) = None
   \<and> selectedCard (handleCardClick (bareItem 7)
                (initialHome [bareItem 7, exampleItem 0 ''USA'' ''Delaware'' ''Inc''])) = Some (bareItem 7)"
proof -
  let ?zero = "exampleItem 0 ''USA'' ''Delaware'' ''Inc''"
  let ?home = "initialHome [bareItem 7, ?zero]"
  have displayed: "Home_catalog (handleCardClick ?zero ?home) = [bareItem 7, ?zero]"
    by (simp add: handleCardClick_def setWidgetState_def Home_catalog_def catalogFromTool_def
        initialHome_def)
  have stored: "widgetState (handleCardClick ?zero ?home) = Some \<lparr>selectedCardId = Some (item_id ?zero)\<rparr>"
    by (simp add: handleCardClick_def setWidgetState_def)
  have zero: "item_id ?zero = 0"
    by (simp add: exampleItem_def)
  have miss: "selectedCard (handleCardClick ?zero ?home) = None"
    by (simp add: selectedCard_def stored zero)
  have seven: "selectedCard (handleCardClick (bareItem 7) ?home) = Some (bareItem 7)"
    by code_simp
  from displayed stored miss seven show ?thesis
    by simp
qed

text \<open>Closing the details clears the selection; a click leaves the displayed set alone.\<close>

lemma selectedCard_handleCloseDetails: "selectedCard (handleCloseDetails st) = None"
  by (simp add: selectedCard_def handleCloseDetails_def setWidgetState_def)

lemma Home_catalog_handleCardClick: "Home_catalog (handleCardClick item st) = Home_catalog st"
  by (simp add: handleCardClick_def setWidgetState_def Home_catalog_def catalogFromTool_def)

text \<open>
  C10. When the displayed set holds an item whose identifier is 0 and that item is
  clicked, the stored identifier is 0, the item is still displayed, and the resolved
  selected item is absent: the lookup is guarded by the truth value of the identifier.
\<close>

theorem selectedCard_id_zero_absent:
  assumes "item \<in> set (Home_catalog st)" and "item_id item = 0"
  shows "selectedCard (handleCardClick item st) = None
         \<and> widgetState (handleCardClick item st) = Some \<lparr>selectedCardId = Some 0\<rparr>
         \<and> item \<in> set (Home_catalog (handleCardClick item st))"
proof -
  have ws: "widgetState (handleCardClick item st) = Some \<lparr>selectedCardId = Some 0\<rparr>"
    using assms(2) by (simp add: handleCardClick_def setWidgetState_def)
  then have "selectedCard (handleCardClick item st) = None"
    by (simp add: selectedCard_def)
  with ws assms(1) show ?thesis
    by (simp add: Home_catalog_handleCardClick)
qed

theorem selectedCard_id_zero_absent_witness:
  "bareItem 0 \<in> set (Home_catalog (initialHome [bareItem 0, bareItem 7]))
   \<and> item_id (bareItem 0) = 0
   \<and> selectedCard (handleCardClick (bareItem 0) (initialHome [bareItem 0, bareItem 7])) = None
   \<and> selectedCard (handleCardClick (bareItem 7) (initialHome [bareItem 0, bareItem 7])) = Some (bareItem 7)"
proof -
  have a: "bareItem 0 \<in> set (Home_catalog (initialHome [bareItem 0, bareItem 7]))"
    by (simp add: Home_catalog_def catalogFromTool_def initialHome_def)
  have b: "item_id (bareItem 0) = 0"
    by (simp add: bareItem_def)
  have c: "selectedCard (handleCardClick (bareItem 7) (initialHome [bareItem 0, bareItem 7])) = Some (bareItem 7)"
    by code_simp
  show ?thesis
    using selectedCard_id_zero_absent [OF a b] a b c by simp
qed

end
